theory Spec2Isabelle
  imports Main
begin

section \<open>Python values used by \<open>traductor_cron.py\<close>\<close>

text \<open>
  A Python \<open>str\<close> is modelled as a \<open>string\<close> whose characters are the code points
  \<open>0..255\<close> (Latin-1): every literal of the program lies in that range
  (\<open>CHR 0xE9\<close> is e-acute, \<open>CHR 0xED\<close> i-acute, \<open>CHR 0xE1\<close> a-acute,
  \<open>CHR 0xF3\<close> o-acute), and \<open>length\<close> counts code points as Python's \<open>len\<close> does.
  Input strings are restricted to the same range.

  An exception is a value of \<open>exn\<close>; a function that can raise returns \<open>exn + 'a\<close>,
  with \<open>Inl\<close> for the exception. Only subclasses of \<open>Exception\<close> are modelled.
\<close>

datatype value_error =
    Message string   \<comment> \<open>\<open>raise ValueError(msg)\<close> written in the program, with its text\<close>
  | IntConversion    \<comment> \<open>raised by \<open>int(s)\<close> on a string that is no integer literal\<close>
  | Unpack           \<comment> \<open>raised by \<open>a, b = xs\<close> when \<open>xs\<close> has the wrong number of items\<close>
  | Collaborator     \<comment> \<open>a \<open>ValueError\<close> raised inside \<open>croniter\<close>\<close>

datatype exn =
    ValueError value_error
  | TypeError
  | IndexError
  | OtherException string   \<comment> \<open>any other subclass of \<open>Exception\<close>, by class name\<close>

subsection \<open>\<open>str.split\<close>, \<open>str.join\<close>\<close>

definition py_isspace :: "char \<Rightarrow> bool" where
  \<comment> \<open>\<open>str.isspace\<close> on one code point below 256\<close>
  "py_isspace c \<longleftrightarrow>
     c \<in> set [CHR 0x09, CHR 0x0A, CHR 0x0B, CHR 0x0C, CHR 0x0D,
                CHR 0x1C, CHR 0x1D, CHR 0x1E, CHR 0x1F, CHR 0x20, CHR 0x85, CHR 0xA0]"

fun split_ws_from :: "string \<Rightarrow> string \<Rightarrow> string list" where
  \<comment> \<open>the first argument is the word read so far\<close>
  "split_ws_from w [] = (if w = [] then [] else [w])"
| "split_ws_from w (c # cs) =
     (if py_isspace c then (if w = [] then split_ws_from [] cs else w # split_ws_from [] cs)
      else split_ws_from (w @ [c]) cs)"

definition split_ws :: "string \<Rightarrow> string list" where
  \<comment> \<open>\<open>s.split()\<close>: the maximal runs of non-whitespace characters\<close>
  "split_ws s = split_ws_from [] s"

fun split_on :: "char \<Rightarrow> string \<Rightarrow> string list" where
  \<comment> \<open>\<open>s.split(c)\<close> for a one-character separator: never empty, empty pieces kept\<close>
  "split_on c [] = [[]]"
| "split_on c (x # xs) =
     (if x = c then [] # split_on c xs
      else (case split_on c xs of [] \<Rightarrow> [[x]] | p # ps \<Rightarrow> (x # p) # ps))"

fun join :: "string \<Rightarrow> string list \<Rightarrow> string" where
  \<comment> \<open>\<open>sep.join(xs)\<close>\<close>
  "join sep [] = []"
| "join sep [x] = x"
| "join sep (x # y # ys) = x @ sep @ join sep (y # ys)"

subsection \<open>\<open>int(s)\<close> and \<open>str(i)\<close>\<close>

definition is_digit :: "char \<Rightarrow> bool" where
  "is_digit c \<longleftrightarrow> c \<in> set ''0123456789''"

definition digit_val :: "char \<Rightarrow> nat" where
  "digit_val c = length (takeWhile (\<lambda>d. d \<noteq> c) ''0123456789'')"

definition int_space :: "char \<Rightarrow> bool" where
  \<comment> \<open>the characters \<open>int\<close> skips around a literal: C's \<open>isspace\<close> below 128, Unicode
      white space above\<close>
  "int_space c \<longleftrightarrow>
     c \<in> set [CHR 0x09, CHR 0x0A, CHR 0x0B, CHR 0x0C, CHR 0x0D, CHR 0x20, CHR 0x85, CHR 0xA0]"

definition int_strip :: "string \<Rightarrow> string" where
  "int_strip s = rev (dropWhile int_space (rev (dropWhile int_space s)))"

fun int_digits :: "nat \<Rightarrow> string \<Rightarrow> nat option" where
  \<comment> \<open>the rest of a literal after a digit: digits, each after at most one underscore;
      the first argument is the value read so far\<close>
  "int_digits acc [] = Some acc"
| "int_digits acc [c] = (if is_digit c then Some (10 * acc + digit_val c) else None)"
| "int_digits acc (c # d # ds) =
     (if is_digit c then int_digits (10 * acc + digit_val c) (d # ds)
      else if c = CHR ''_'' \<and> is_digit d then int_digits (10 * acc + digit_val d) ds
      else None)"

definition int_max_str_digits :: nat where
  \<comment> \<open>CPython's default limit on the digits of a converted literal (3.11 and later)\<close>
  "int_max_str_digits = 4300"

definition int_body :: "string \<Rightarrow> nat option" where
  \<comment> \<open>an unsigned literal: it starts with a digit\<close>
  "int_body s =
     (case s of
        [] \<Rightarrow> None
      | c # cs \<Rightarrow>
          if is_digit c \<and> length (filter is_digit s) \<le> int_max_str_digits
          then int_digits (digit_val c) cs else None)"

definition py_int :: "string \<Rightarrow> exn + int" where
  \<comment> \<open>\<open>int(s)\<close> for a \<open>str\<close>, base 10\<close>
  "py_int s =
     (case int_strip s of
        [] \<Rightarrow> Inl (ValueError IntConversion)
      | c # cs \<Rightarrow>
          if c = CHR ''-'' then
            (case int_body cs of None \<Rightarrow> Inl (ValueError IntConversion) | Some n \<Rightarrow> Inr (- int n))
          else if c = CHR ''+'' then
            (case int_body cs of None \<Rightarrow> Inl (ValueError IntConversion) | Some n \<Rightarrow> Inr (int n))
          else
            (case int_body (c # cs) of None \<Rightarrow> Inl (ValueError IntConversion) | Some n \<Rightarrow> Inr (int n)))"

definition digit_char :: "nat \<Rightarrow> char" where
  "digit_char d = ''0123456789'' ! (d mod 10)"

fun str_nat :: "nat \<Rightarrow> string" where
  "str_nat n = (if n < 10 then [digit_char n] else str_nat (n div 10) @ [digit_char n])"

declare str_nat.simps [simp del]

definition py_str :: "int \<Rightarrow> string" where
  \<comment> \<open>\<open>str(i)\<close>, what an f-string writes for \<open>{i}\<close>\<close>
  "py_str i = (if i < 0 then CHR ''-'' # str_nat (nat (- i)) else str_nat (nat i))"

subsection \<open>List indexing and truth value\<close>

definition py_index :: "'a list \<Rightarrow> int \<Rightarrow> exn + 'a" where
  \<comment> \<open>\<open>xs[i]\<close>: a negative index counts from the end, an index out of range raises\<close>
  "py_index xs i =
     (if 0 \<le> i \<and> i < int (length xs) then Inr (xs ! nat i)
      else if i < 0 \<and> - int (length xs) \<le> i then Inr (xs ! nat (int (length xs) + i))
      else Inl IndexError)"

fun truthy :: "'a list option \<Rightarrow> bool" where
  \<comment> \<open>\<open>if names_list:\<close> for an optional list: \<open>None\<close> and \<open>[]\<close> are false\<close>
  "truthy None = False"
| "truthy (Some xs) = (xs \<noteq> [])"

section \<open>The class \<open>CronTranslator\<close>\<close>

subsection \<open>Name tables\<close>

definition MONTH_NAMES :: "string list" where
  "MONTH_NAMES =
     [''enero'', ''febrero'', ''marzo'', ''abril'', ''mayo'', ''junio'',
      ''julio'', ''agosto'', ''septiembre'', ''octubre'', ''noviembre'', ''diciembre'']"

definition DAY_NAMES :: "string list" where
  "DAY_NAMES =
     [''domingo'', ''lunes'', ''martes'', ''mi'' @ [CHR 0xE9] @ ''rcoles'',
      ''jueves'', ''viernes'', ''s'' @ [CHR 0xE1] @ ''bado'']"

subsection \<open>The external collaborator\<close>

text \<open>
  \<open>croniter\<close> is a library outside the repository, so the model takes it as parameters:
  the constructor \<open>croniter expression base\<close> (\<open>base = None\<close> when the program passes no
  start time), which returns an iterator state or raises, and \<open>get_next\<close>, which
  returns the next fire time with the advanced state or raises.
\<close>

type_synonym ('t, 'c) constructor = "string \<Rightarrow> 't option \<Rightarrow> exn + 'c"
type_synonym ('t, 'c) get_next = "'c \<Rightarrow> exn + ('t \<times> 'c)"

definition validate_cron_expression :: "('t, 'c) constructor \<Rightarrow> string \<Rightarrow> exn + bool" where
  \<comment> \<open>\<open>_validate_cron_expression\<close>, lines 35-46: only \<open>ValueError\<close> and \<open>TypeError\<close>
      are caught\<close>
  "validate_cron_expression croniter expression =
     (case croniter expression None of
        Inr _ \<Rightarrow> Inr True
      | Inl (ValueError _) \<Rightarrow> Inr False
      | Inl TypeError \<Rightarrow> Inr False
      | Inl e \<Rightarrow> Inl e)"

subsection \<open>\<open>_parse_field\<close>\<close>

fun list_names :: "string list \<Rightarrow> string list \<Rightarrow> exn + string list" where
  \<comment> \<open>line 69, the generator
      \<open>names_list[int(v)] for v in valores if int(v) < len(names_list)\<close>,
      consumed from left to right; \<open>int(v)\<close> is pure, so its second evaluation gives
      the first one's result\<close>
  "list_names names_list [] = Inr []"
| "list_names names_list (v # valores) =
     (case py_int v of
        Inl e \<Rightarrow> Inl e
      | Inr i \<Rightarrow>
          if i < int (length names_list) then
            (case py_index names_list i of
               Inl e \<Rightarrow> Inl e
             | Inr name \<Rightarrow>
                 (case list_names names_list valores of
                    Inl e \<Rightarrow> Inl e
                  | Inr rest \<Rightarrow> Inr (name # rest)))
          else list_names names_list valores)"

definition parse_list :: "string \<Rightarrow> string \<Rightarrow> string list option \<Rightarrow> exn + string" where
  \<comment> \<open>lines 67-70\<close>
  "parse_list value type_name names_list =
     (let valores = split_on (CHR '','') value in
      if truthy names_list then
        (case list_names (the names_list) valores of
           Inl e \<Rightarrow> Inl e
         | Inr names \<Rightarrow> Inr (''los '' @ join '', '' names))
      else Inr (type_name @ ''s: '' @ join '', '' valores))"

fun unpack_ints :: "string list \<Rightarrow> exn + (int \<times> int)" where
  \<comment> \<open>line 74, \<open>inicio, fin = map(int, parts)\<close>: the assignment draws the items of the
      lazy \<open>map\<close> one by one, and asks for a third one to see that there is none\<close>
  "unpack_ints [] = Inl (ValueError Unpack)"
| "unpack_ints [a] = (case py_int a of Inl e \<Rightarrow> Inl e | Inr _ \<Rightarrow> Inl (ValueError Unpack))"
| "unpack_ints (a # b # rest) =
     (case py_int a of
        Inl e \<Rightarrow> Inl e
      | Inr inicio \<Rightarrow>
          (case py_int b of
             Inl e \<Rightarrow> Inl e
           | Inr fin \<Rightarrow>
               (case rest of
                  [] \<Rightarrow> Inr (inicio, fin)
                | c # _ \<Rightarrow>
                    (case py_int c of Inl e \<Rightarrow> Inl e | Inr _ \<Rightarrow> Inl (ValueError Unpack)))))"

definition parse_range :: "string \<Rightarrow> string \<Rightarrow> string list option \<Rightarrow> exn + string" where
  \<comment> \<open>lines 74-77\<close>
  "parse_range value type_name names_list =
     (case unpack_ints (split_on (CHR ''-'') value) of
        Inl e \<Rightarrow> Inl e
      | Inr (inicio, fin) \<Rightarrow>
          if truthy names_list then
            (case py_index (the names_list) inicio of
               Inl e \<Rightarrow> Inl e
             | Inr n1 \<Rightarrow>
                 (case py_index (the names_list) fin of
                    Inl e \<Rightarrow> Inl e
                  | Inr n2 \<Rightarrow> Inr (''de '' @ n1 @ '' a '' @ n2)))
          else Inr (type_name @ ''s del '' @ py_str inicio @ '' al '' @ py_str fin))"

definition parse_step :: "string \<Rightarrow> string \<Rightarrow> exn + string" where
  \<comment> \<open>lines 81-82\<close>
  "parse_step value type_name =
     (case split_on (CHR ''/'') value of
        [_, intervalo] \<Rightarrow> Inr (''cada '' @ intervalo @ '' '' @ type_name @ ''s'')
      | _ \<Rightarrow> Inl (ValueError Unpack))"

definition parse_field :: "string \<Rightarrow> string \<Rightarrow> string list option \<Rightarrow> exn + string" where
  \<comment> \<open>\<open>_parse_field\<close>, lines 48-84\<close>
  "parse_field value type_name names_list =
     (if value = ''*'' then Inr (''cada '' @ type_name)
      else if CHR '','' \<in> set value then parse_list value type_name names_list
      else if CHR ''-'' \<in> set value then parse_range value type_name names_list
      else if CHR ''/'' \<in> set value then parse_step value type_name
      else Inr value)"

subsection \<open>\<open>translate\<close>\<close>

fun sequence :: "(exn + 'a) list \<Rightarrow> exn + 'a list" where
  \<comment> \<open>statements run in order: the first exception ends the run\<close>
  "sequence [] = Inr []"
| "sequence (r # rs) =
     (case r of
        Inl e \<Rightarrow> Inl e
      | Inr x \<Rightarrow> (case sequence rs of Inl e \<Rightarrow> Inl e | Inr xs \<Rightarrow> Inr (x # xs)))"

definition field_translations ::
  "string \<Rightarrow> string \<Rightarrow> string \<Rightarrow> string \<Rightarrow> string \<Rightarrow> exn + string list" where
  \<comment> \<open>lines 101-116: the list \<open>translations\<close> after the five appends\<close>
  "field_translations minute hour day_of_month month day_of_week =
     sequence
       [parse_field minute ''minuto'' None,
        parse_field hour ''hora'' None,
        parse_field day_of_month (''d'' @ [CHR 0xED] @ ''a del mes'') None,
        parse_field month ''mes'' (Some MONTH_NAMES),
        parse_field day_of_week (''d'' @ [CHR 0xED] @ ''a'') (Some DAY_NAMES)]"

definition invalid_expression :: "string \<Rightarrow> exn" where
  \<comment> \<open>line 94\<close>
  "invalid_expression cron_expression =
     ValueError (Message (''Expresi'' @ [CHR 0xF3] @ ''n cron inv'' @ [CHR 0xE1] @ ''lida: ''
       @ cron_expression))"

definition invalid_format :: exn where
  \<comment> \<open>line 99\<close>
  "invalid_format =
     ValueError (Message (''Formato de expresi'' @ [CHR 0xF3] @ ''n cron inv'' @ [CHR 0xE1]
       @ ''lido.''))"

definition translate :: "('t, 'c) constructor \<Rightarrow> string \<Rightarrow> exn + string" where
  \<comment> \<open>lines 86-118\<close>
  "translate croniter cron_expression =
     (case validate_cron_expression croniter cron_expression of
        Inl e \<Rightarrow> Inl e
      | Inr False \<Rightarrow> Inl (invalid_expression cron_expression)
      | Inr True \<Rightarrow>
          (case split_ws cron_expression of
             [minute, hour, day_of_month, month, day_of_week] \<Rightarrow>
               (case field_translations minute hour day_of_month month day_of_week of
                  Inl e \<Rightarrow> Inl e
                | Inr ts \<Rightarrow> Inr (join '' '' ts))
           | _ \<Rightarrow> Inl invalid_format))"

subsection \<open>\<open>get_next_executions\<close>\<close>

fun next_times :: "('t, 'c) get_next \<Rightarrow> nat \<Rightarrow> 'c \<Rightarrow> exn + 't list" where
  \<comment> \<open>line 131, \<open>[cron.get_next(datetime) for _ in range(n)]\<close> on the iterator state\<close>
  "next_times get_next 0 cron = Inr []"
| "next_times get_next (Suc n) cron =
     (case get_next cron of
        Inl e \<Rightarrow> Inl e
      | Inr (t, cron') \<Rightarrow>
          (case next_times get_next n cron' of
             Inl e \<Rightarrow> Inl e
           | Inr ts \<Rightarrow> Inr (t # ts)))"

definition get_next_executions ::
  "('t, 'c) constructor \<Rightarrow> ('t, 'c) get_next \<Rightarrow> 't \<Rightarrow> string \<Rightarrow> int \<Rightarrow> 't list \<times> exn list" where
  \<comment> \<open>lines 120-134; \<open>now\<close> is what \<open>datetime.now()\<close> returns, \<open>range(count)\<close> is empty
      for \<open>count \<le> 0\<close>. The result is the returned list with the exceptions handed to
      \<open>self.logger.error\<close>\<close>
  "get_next_executions croniter get_next now cron_expression count =
     (case croniter cron_expression (Some now) of
        Inl e \<Rightarrow> ([], [e])
      | Inr cron \<Rightarrow>
          (case next_times get_next (nat count) cron of
             Inl e \<Rightarrow> ([], [e])
           | Inr executions \<Rightarrow> (executions, [])))"

section \<open>Notions used to state the properties\<close>

subsection \<open>The five forms of a field token\<close>

text \<open>
  The specification's classification of a token, written form by form from its words
  (wildcard; list: contains a comma; range: contains a hyphen and no comma; step:
  contains a slash and neither comma nor hyphen; literal: anything else), to be compared
  with the chain of tests in \<open>parse_field\<close>.
\<close>

datatype field_form = WildcardForm | ListForm | RangeForm | StepForm | LiteralForm

fun has_form :: "field_form \<Rightarrow> string \<Rightarrow> bool" where
  "has_form WildcardForm value \<longleftrightarrow> value = ''*''"
| "has_form ListForm value \<longleftrightarrow> CHR '','' \<in> set value"
| "has_form RangeForm value \<longleftrightarrow> CHR ''-'' \<in> set value \<and> CHR '','' \<notin> set value"
| "has_form StepForm value \<longleftrightarrow>
     CHR ''/'' \<in> set value \<and> CHR '','' \<notin> set value \<and> CHR ''-'' \<notin> set value"
| "has_form LiteralForm value \<longleftrightarrow>
     value \<noteq> ''*'' \<and> CHR '','' \<notin> set value \<and> CHR ''-'' \<notin> set value \<and> CHR ''/'' \<notin> set value"

fun render :: "field_form \<Rightarrow> string \<Rightarrow> string \<Rightarrow> string list option \<Rightarrow> exn + string" where
  \<comment> \<open>the renderer of each form: the body of the matching branch of \<open>_parse_field\<close>\<close>
  "render WildcardForm value type_name names_list = Inr (''cada '' @ type_name)"
| "render ListForm value type_name names_list = parse_list value type_name names_list"
| "render RangeForm value type_name names_list = parse_range value type_name names_list"
| "render StepForm value type_name names_list = parse_step value type_name"
| "render LiteralForm value type_name names_list = Inr value"

subsection \<open>Tokens with well-formed numeric content\<close>

definition is_int :: "string \<Rightarrow> bool" where
  \<comment> \<open>\<open>int(v)\<close> returns\<close>
  "is_int v = (case py_int v of Inl _ \<Rightarrow> False | Inr _ \<Rightarrow> True)"

definition nonneg_int :: "string \<Rightarrow> bool" where
  \<comment> \<open>\<open>int(v)\<close> returns a number that is not negative\<close>
  "nonneg_int v = (case py_int v of Inl _ \<Rightarrow> False | Inr i \<Rightarrow> 0 \<le> i)"

definition table_index :: "nat \<Rightarrow> string \<Rightarrow> bool" where
  \<comment> \<open>\<open>int(v)\<close> returns an index of a table of \<open>n\<close> names\<close>
  "table_index n v = (case py_int v of Inl _ \<Rightarrow> False | Inr i \<Rightarrow> 0 \<le> i \<and> i < int n)"

definition well_formed :: "string \<Rightarrow> string list option \<Rightarrow> bool" where
  \<comment> \<open>a list read through a name table has sub-parts that are integers from 0 on; a range
      has exactly two integer sub-parts, inside the name table when there is one; a step
      has exactly one slash\<close>
  "well_formed value names_list =
     (if value = ''*'' then True
      else if CHR '','' \<in> set value then
        (if truthy names_list then list_all nonneg_int (split_on (CHR '','') value) else True)
      else if CHR ''-'' \<in> set value then
        (case split_on (CHR ''-'') value of
           [a, b] \<Rightarrow>
             if truthy names_list
             then table_index (length (the names_list)) a \<and> table_index (length (the names_list)) b
             else is_int a \<and> is_int b
         | _ \<Rightarrow> False)
      else if CHR ''/'' \<in> set value then length (split_on (CHR ''/'') value) = 2
      else True)"

subsection \<open>A stand-in collaborator\<close>

text \<open>
  To run \<open>translate\<close> and \<open>get_next_executions\<close> on concrete inputs the collaborator
  has to be something. The stand-in keeps one of \<open>croniter\<close>'s checks, the number of
  fields (five, six or seven); its iterator state is the time of the last execution (the
  base time, or 0 without one), and it fires every 60 units up to the time 300, after
  which \<open>get_next\<close> raises.
\<close>

definition stub_croniter :: "(nat, nat) constructor" where
  "stub_croniter expression base =
     (if length (split_ws expression) \<in> set [5, 6, 7]
      then Inr (case base of None \<Rightarrow> 0 | Some t \<Rightarrow> t)
      else Inl (ValueError Collaborator))"

definition stub_get_next :: "(nat, nat) get_next" where
  "stub_get_next cron =
     (if cron + 60 \<le> 300 then Inr (cron + 60, cron + 60)
      else Inl (OtherException ''CroniterBadDateError''))"

section \<open>Properties\<close>

subsection \<open>Splitting and integer conversion\<close>

lemma split_on_no_sep: "c \<notin> set xs \<Longrightarrow> split_on c xs = [xs]"
  by (induction xs) auto

lemma split_on_first_sep: "c \<notin> set a \<Longrightarrow> split_on c (a @ c # b) = a # split_on c b"
  by (induction a) auto

lemma split_on_two: "c \<notin> set a \<Longrightarrow> c \<notin> set b \<Longrightarrow> split_on c (a @ c # b) = [a, b]"
  by (simp add: split_on_first_sep split_on_no_sep)

lemma set_int_strip: "set (int_strip s) \<subseteq> set s"
  unfolding int_strip_def
  by (metis set_dropWhileD set_rev subsetI)

lemma py_int_error: "py_int s = Inl e \<Longrightarrow> e = ValueError IntConversion"
  by (auto simp: py_int_def split: list.splits if_splits option.splits)

lemma py_int_nonneg:
  assumes "py_int s = Inr i" and "CHR ''-'' \<notin> set s"
  shows "0 \<le> i"
proof -
  have "CHR ''-'' \<notin> set (int_strip s)"
    using assms(2) set_int_strip by blast
  with assms(1) show ?thesis
    by (auto simp: py_int_def split: list.splits if_splits option.splits)
qed

lemma py_index_nonneg:
  "0 \<le> i \<Longrightarrow> py_index xs i = (if i < int (length xs) then Inr (xs ! nat i) else Inl IndexError)"
  by (simp add: py_index_def)

lemma unpack_ints_error: "unpack_ints ps = Inl e \<Longrightarrow> \<exists>m. e = ValueError m"
  by (induction ps rule: unpack_ints.induct)
    (auto split: sum.splits list.splits dest: py_int_error)

lemma unpack_ints_bad_part:
  assumes "p \<in> set ps" and "py_int p = Inl x"
  shows "\<exists>m. unpack_ints ps = Inl (ValueError m)"
proof (cases "unpack_ints ps")
  case (Inl e)
  then show ?thesis using unpack_ints_error by blast
next
  case (Inr ij)
  with assms show ?thesis
    by (induction ps rule: unpack_ints.induct) (auto split: sum.splits list.splits)
qed

subsection \<open>The branches of \<open>parse_field\<close>\<close>

lemma parse_field_step:
  assumes "CHR '','' \<notin> set (base @ n)" and "CHR ''-'' \<notin> set (base @ n)"
    and "CHR ''/'' \<notin> set (base @ n)"
  shows "parse_field (base @ ''/'' @ n) type_name names_list =
    Inr (''cada '' @ n @ '' '' @ type_name @ ''s'')"
proof -
  have "base @ ''/'' @ n \<noteq> ''*''"
    by (cases base) auto
  moreover have "split_on (CHR ''/'') (base @ ''/'' @ n) = [base, n]"
    using assms(3) by (simp add: split_on_two)
  ultimately show ?thesis
    using assms by (simp add: parse_field_def parse_step_def)
qed

lemma parse_field_literal:
  "value \<noteq> ''*'' \<Longrightarrow> CHR '','' \<notin> set value \<Longrightarrow> CHR ''-'' \<notin> set value \<Longrightarrow>
   CHR ''/'' \<notin> set value \<Longrightarrow> parse_field value type_name names_list = Inr value"
  by (simp add: parse_field_def)

lemma parse_field_range_names:
  assumes "CHR '','' \<notin> set (a @ b)" and "CHR ''-'' \<notin> set (a @ b)"
    and "py_int a = Inr i" and "py_int b = Inr j" and "names \<noteq> []"
  shows "parse_field (a @ ''-'' @ b) type_name (Some names) =
    (if i < int (length names) \<and> j < int (length names)
     then Inr (''de '' @ names ! nat i @ '' a '' @ names ! nat j) else Inl IndexError)"
proof -
  have ne: "a @ ''-'' @ b \<noteq> ''*''"
    by (cases a) auto
  have sp: "split_on (CHR ''-'') (a @ ''-'' @ b) = [a, b]"
    using assms(2) by (simp add: split_on_two)
  have "0 \<le> i" "0 \<le> j"
    using assms(2,3,4) py_int_nonneg by auto
  then show ?thesis
    using assms ne sp
    by (simp add: parse_field_def parse_range_def py_index_nonneg)
qed

subsection \<open>Range form with a name table\<close>

text \<open>
  C4. A range token \<open>a-b\<close> (no comma, one hyphen, both sides integers \<open>i\<close> and \<open>j\<close>) on
  a field with a name table is rendered as "de", the table's entry \<open>i\<close>, "a", the
  table's entry \<open>j\<close>. The table is indexed with the parsed numbers as they are: nothing
  is checked before, so an index past the end of the table raises \<open>IndexError\<close>. The
  month token \<open>1-5\<close> is rendered as "de febrero a junio".
\<close>

theorem range_with_name_table:
  assumes "CHR '','' \<notin> set (a @ b)" and "CHR ''-'' \<notin> set (a @ b)"
    and "py_int a = Inr i" and "py_int b = Inr j" and "names \<noteq> []"
  shows "parse_field (a @ ''-'' @ b) type_name (Some names) =
      (if i < int (length names) \<and> j < int (length names)
       then Inr (''de '' @ names ! nat i @ '' a '' @ names ! nat j) else Inl IndexError)
    \<and> parse_field ''1-5'' ''mes'' (Some MONTH_NAMES) = Inr ''de febrero a junio''"
proof -
  have "parse_field ''1-5'' ''mes'' (Some MONTH_NAMES) = Inr ''de febrero a junio''"
    by code_simp
  with parse_field_range_names [OF assms] show ?thesis
    by simp
qed

theorem range_with_name_table_witness:
  "py_int ''3'' = Inr 3 \<and> py_int ''11'' = Inr 11
   \<and> parse_field ''3-11'' ''mes'' (Some MONTH_NAMES) = Inr ''de abril a diciembre''
   \<and> py_int ''12'' = Inr 12
   \<and> parse_field ''3-12'' ''mes'' (Some MONTH_NAMES) = Inl IndexError"
proof -
  have a: "py_int ''3'' = Inr 3" by code_simp
  have b: "py_int ''11'' = Inr 11" by code_simp
  have c: "py_int ''12'' = Inr 12" by code_simp
  have n: "MONTH_NAMES \<noteq> []" by (simp add: MONTH_NAMES_def)
  have s: "CHR '','' \<notin> set (''3'' @ ''11'')" "CHR ''-'' \<notin> set (''3'' @ ''11'')"
    "CHR '','' \<notin> set (''3'' @ ''12'')" "CHR ''-'' \<notin> set (''3'' @ ''12'')"
    by simp_all
  show ?thesis
    using range_with_name_table [OF s(1) s(2) a b n, of "''mes''"]
      range_with_name_table [OF s(3) s(4) a c n, of "''mes''"] a b c
    by (simp add: MONTH_NAMES_def)
qed

subsection \<open>Step form\<close>

text \<open>
  C6. A step token \<open>base/N\<close>, in particular \<open>*/N\<close>, with no comma, no hyphen and no
  further slash: splitting at the slash gives exactly the base and \<open>N\<close>, the base is
  dropped, and \<open>N\<close> is written as it stands into "cada N" followed by the noun and an
  "s". The token \<open>*/5\<close> with the noun "minuto" gives "cada 5 minutos".
\<close>

theorem step_rendering:
  assumes "CHR '','' \<notin> set (base @ n)" and "CHR ''-'' \<notin> set (base @ n)"
    and "CHR ''/'' \<notin> set (base @ n)"
  shows "split_on (CHR ''/'') (base @ ''/'' @ n) = [base, n]
    \<and> parse_field (base @ ''/'' @ n) type_name names_list =
        Inr (''cada '' @ n @ '' '' @ type_name @ ''s'')
    \<and> parse_field ''*/5'' ''minuto'' None = Inr ''cada 5 minutos''"
proof -
  have "split_on (CHR ''/'') (base @ ''/'' @ n) = [base, n]"
    using assms(3) by (simp add: split_on_two)
  moreover have "parse_field ''*/5'' ''minuto'' None = Inr ''cada 5 minutos''"
    by code_simp
  ultimately show ?thesis
    using parse_field_step [OF assms] by simp
qed

theorem step_rendering_witness:
  "parse_field ''10/15'' ''hora'' None = Inr ''cada 15 horas''
   \<and> parse_field ''*/abc'' ''mes'' (Some MONTH_NAMES) = Inr ''cada abc mess''"
  using step_rendering [of "''10''" "''15''" "''hora''" None]
    step_rendering [of "''*''" "''abc''" "''mes''" "Some MONTH_NAMES"]
  by simp

subsection \<open>Classification\<close>

text \<open>
  C7. Every token has exactly one of the five forms, and \<open>_parse_field\<close> runs the
  renderer of that form and no other: the tests are tried in the order wildcard, list,
  range, step, literal. So a token with a comma is rendered as a list even when it also
  holds a hyphen or a slash, and a token with a hyphen and no comma is rendered as a
  range even when it also holds a slash.
\<close>

theorem classification_precedence:
  "(\<exists>!f. has_form f value)
   \<and> (\<forall>f. has_form f value \<longrightarrow>
         parse_field value type_name names_list = render f value type_name names_list)
   \<and> (CHR '','' \<in> set value \<longrightarrow>
         parse_field value type_name names_list = parse_list value type_name names_list)
   \<and> (CHR ''-'' \<in> set value \<and> CHR '','' \<notin> set value \<longrightarrow>
         parse_field value type_name names_list = parse_range value type_name names_list)"
proof -
  define f0 where "f0 =
    (if value = ''*'' then WildcardForm
     else if CHR '','' \<in> set value then ListForm
     else if CHR ''-'' \<in> set value then RangeForm
     else if CHR ''/'' \<in> set value then StepForm else LiteralForm)"
  have here: "has_form f0 value"
    by (auto simp: f0_def)
  have only: "f = f0" if "has_form f value" for f
    using that by (cases f) (auto simp: f0_def)
  have unique: "\<exists>!f. has_form f value"
    using here only by blast
  have runs: "parse_field value type_name names_list = render f value type_name names_list"
    if "has_form f value" for f
    using that by (cases f) (auto simp: parse_field_def)
  have list: "parse_field value type_name names_list = parse_list value type_name names_list"
    if "CHR '','' \<in> set value"
    using that by (auto simp: parse_field_def)
  have range: "parse_field value type_name names_list = parse_range value type_name names_list"
    if "CHR ''-'' \<in> set value" and "CHR '','' \<notin> set value"
    using that by (auto simp: parse_field_def)
  show ?thesis
    using unique runs list range by blast
qed

theorem classification_precedence_witness:
  "has_form ListForm ''1-5/2,3''
   \<and> parse_field ''1-5/2,3'' ''minuto'' None = Inr ''minutos: 1-5/2, 3''
   \<and> has_form RangeForm ''1-10/2''
   \<and> parse_field ''1-10/2'' ''minuto'' None = Inl (ValueError IntConversion)"
proof -
  have l: "has_form ListForm ''1-5/2,3''" by simp
  have r: "has_form RangeForm ''1-10/2''" by simp
  have "parse_field ''1-5/2,3'' ''minuto'' None = render ListForm ''1-5/2,3'' ''minuto'' None"
    using classification_precedence [of "''1-5/2,3''" "''minuto''" None] l by blast
  moreover have "render ListForm ''1-5/2,3'' ''minuto'' None = Inr ''minutos: 1-5/2, 3''"
    by code_simp
  moreover have "parse_field ''1-10/2'' ''minuto'' None = render RangeForm ''1-10/2'' ''minuto'' None"
    using classification_precedence [of "''1-10/2''" "''minuto''" None] r by blast
  moreover have "render RangeForm ''1-10/2'' ''minuto'' None = Inl (ValueError IntConversion)"
    by code_simp
  ultimately show ?thesis
    using l r by simp
qed

subsection \<open>Step form and the name table\<close>

text \<open>
  C10. A step token is rendered without looking at the name table: with a table the
  result is the one without it, "cada N" followed by the whole noun and an "s". So the
  month token \<open>*/2\<close> gives "cada 2 mess", and as day of the month it gives
  "cada 2 dia del mess" (with the accented letter of the program).
\<close>

theorem step_ignores_name_table:
  "(CHR '','' \<notin> set value \<and> CHR ''-'' \<notin> set value \<and> CHR ''/'' \<in> set value \<longrightarrow>
      parse_field value type_name names_list = parse_field value type_name None)
   \<and> (CHR '','' \<notin> set (base @ n) \<and> CHR ''-'' \<notin> set (base @ n) \<and> CHR ''/'' \<notin> set (base @ n) \<longrightarrow>
      parse_field (base @ ''/'' @ n) type_name names_list =
        Inr (''cada '' @ n @ '' '' @ type_name @ ''s''))
   \<and> parse_field ''*/2'' ''mes'' (Some MONTH_NAMES) = Inr ''cada 2 mess''
   \<and> field_translations ''*'' ''*'' ''*/2'' ''*/2'' ''*'' =
       Inr [''cada minuto'', ''cada hora'', ''cada 2 d'' @ [CHR 0xED] @ ''a del mess'',
            ''cada 2 mess'', ''cada d'' @ [CHR 0xED] @ ''a'']"
proof -
  have "parse_field value type_name names_list = parse_field value type_name None"
    if "CHR '','' \<notin> set value" "CHR ''-'' \<notin> set value" "CHR ''/'' \<in> set value"
    using that by (simp add: parse_field_def)
  moreover have "parse_field ''*/2'' ''mes'' (Some MONTH_NAMES) = Inr ''cada 2 mess''"
    by code_simp
  moreover have "field_translations ''*'' ''*'' ''*/2'' ''*/2'' ''*'' =
       Inr [''cada minuto'', ''cada hora'', ''cada 2 d'' @ [CHR 0xED] @ ''a del mess'',
            ''cada 2 mess'', ''cada d'' @ [CHR 0xED] @ ''a'']"
    by code_simp
  ultimately show ?thesis
    using parse_field_step [of base n type_name names_list] by blast
qed

theorem step_ignores_name_table_witness:
  "parse_field ''*/15'' (''d'' @ [CHR 0xED] @ ''a'') (Some DAY_NAMES) =
     parse_field ''*/15'' (''d'' @ [CHR 0xED] @ ''a'') None
   \<and> parse_field ''*/15'' (''d'' @ [CHR 0xED] @ ''a'') (Some DAY_NAMES) =
     Inr (''cada 15 d'' @ [CHR 0xED] @ ''as'')"
proof -
  have "parse_field ''*/15'' (''d'' @ [CHR 0xED] @ ''a'') None =
      Inr (''cada 15 d'' @ [CHR 0xED] @ ''as'')"
    by code_simp
  then show ?thesis
    using step_ignores_name_table
      [of "''*/15''" "''d'' @ [CHR 0xED] @ ''a''" "Some DAY_NAMES" "''*''" "''15''"]
    by simp
qed

subsection \<open>\<open>translate\<close>: validation and the number of fields\<close>

lemma stub_accepts:
  "length (split_ws e) \<in> set [5, 6, 7] \<Longrightarrow> validate_cron_expression stub_croniter e = Inr True"
  by (simp add: validate_cron_expression_def stub_croniter_def)

lemma stub_rejects:
  "length (split_ws e) \<notin> set [5, 6, 7] \<Longrightarrow> validate_cron_expression stub_croniter e = Inr False"
  by (simp add: validate_cron_expression_def stub_croniter_def)

lemma invalid_format_distinct: "invalid_format \<noteq> invalid_expression e"
  by (simp add: invalid_format_def invalid_expression_def)

text \<open>
  C2, as amended. \<open>translate\<close> asks the validator first. For an expression the validator
  accepts and that does not split into exactly five fields, \<open>translate\<close> raises the
  \<open>ValueError\<close> "Formato de expresion cron invalido." and returns nothing. When the
  validator rejects the expression, \<open>translate\<close> raises the \<open>ValueError\<close>
  "Expresion cron invalida: ..." whatever the number of fields. The two errors
  differ (by their message).
\<close>

theorem translate_field_count:
  "(validate_cron_expression croniter e = Inr True \<and> length (split_ws e) \<noteq> 5 \<longrightarrow>
      translate croniter e = Inl invalid_format)
   \<and> (validate_cron_expression croniter e = Inr False \<longrightarrow>
      translate croniter e = Inl (invalid_expression e))
   \<and> invalid_format \<noteq> invalid_expression e"
proof -
  have "translate croniter e = Inl invalid_format"
    if "validate_cron_expression croniter e = Inr True" and "length (split_ws e) \<noteq> 5"
    using that by (auto simp: translate_def split: list.splits)
  moreover have "translate croniter e = Inl (invalid_expression e)"
    if "validate_cron_expression croniter e = Inr False"
    using that by (simp add: translate_def)
  ultimately show ?thesis
    using invalid_format_distinct by blast
qed

theorem translate_field_count_witness:
  "validate_cron_expression stub_croniter ''* * * * * *'' = Inr True
   \<and> length (split_ws ''* * * * * *'') = 6
   \<and> translate stub_croniter ''* * * * * *'' = Inl invalid_format
   \<and> validate_cron_expression stub_croniter ''* * * *'' = Inr False
   \<and> translate stub_croniter ''* * * *'' = Inl (invalid_expression ''* * * *'')"
proof -
  have six: "length (split_ws ''* * * * * *'') = 6" by code_simp
  have four: "length (split_ws ''* * * *'') = 4" by code_simp
  have a: "validate_cron_expression stub_croniter ''* * * * * *'' = Inr True"
    using six by (simp add: stub_accepts)
  have r: "validate_cron_expression stub_croniter ''* * * *'' = Inr False"
    using four by (simp add: stub_rejects)
  show ?thesis
    using translate_field_count [of stub_croniter "''* * * * * *''"]
      translate_field_count [of stub_croniter "''* * * *''"] six a r
    by simp
qed

text \<open>
  C2 as stated fails: the expression \<open>* * * *\<close> has four fields, a validator that
  rejects it (as the stand-in does, by its field count) makes \<open>translate\<close> raise the
  invalid-expression error, not the format error.
\<close>

theorem four_fields_counterexample:
  "length (split_ws ''* * * *'') \<noteq> 5
   \<and> translate stub_croniter ''* * * *'' = Inl (invalid_expression ''* * * *'')
   \<and> translate stub_croniter ''* * * *'' \<noteq> Inl invalid_format"
proof -
  have four: "length (split_ws ''* * * *'') = 4" by code_simp
  have "validate_cron_expression stub_croniter ''* * * *'' = Inr False"
    using four by (simp add: stub_rejects)
  then have "translate stub_croniter ''* * * *'' = Inl (invalid_expression ''* * * *'')"
    by (simp add: translate_def)
  then show ?thesis
    using four invalid_format_distinct [of "''* * * *''"] by simp
qed

subsection \<open>\<open>translate\<close>: literal and wildcard fields\<close>

text \<open>
  C5. When the validator accepts it, \<open>translate("30 3 15 * *")\<close> returns the five
  clauses "30", "3", "15", "cada mes", "cada dia" (with the program's accented letter) in
  this order, joined by single spaces. A literal token (not the wildcard, no comma,
  hyphen or slash) is returned as it is, with no noun.
\<close>

theorem translate_literal_example:
  assumes "validate_cron_expression croniter ''30 3 15 * *'' = Inr True"
  shows "split_ws ''30 3 15 * *'' = [''30'', ''3'', ''15'', ''*'', ''*'']
    \<and> field_translations ''30'' ''3'' ''15'' ''*'' ''*'' =
        Inr [''30'', ''3'', ''15'', ''cada mes'', ''cada d'' @ [CHR 0xED] @ ''a'']
    \<and> translate croniter ''30 3 15 * *'' = Inr (''30 3 15 cada mes cada d'' @ [CHR 0xED] @ ''a'')
    \<and> (value \<noteq> ''*'' \<and> CHR '','' \<notin> set value \<and> CHR ''-'' \<notin> set value \<and> CHR ''/'' \<notin> set value \<longrightarrow>
          parse_field value type_name names_list = Inr value)"
proof -
  have s: "split_ws ''30 3 15 * *'' = [''30'', ''3'', ''15'', ''*'', ''*'']"
    by code_simp
  have f: "field_translations ''30'' ''3'' ''15'' ''*'' ''*'' =
      Inr [''30'', ''3'', ''15'', ''cada mes'', ''cada d'' @ [CHR 0xED] @ ''a'']"
    by code_simp
  have "translate croniter ''30 3 15 * *'' = Inr (''30 3 15 cada mes cada d'' @ [CHR 0xED] @ ''a'')"
    using assms by (simp add: translate_def s f)
  then show ?thesis
    using s f parse_field_literal [of "value" type_name names_list] by blast
qed

theorem translate_literal_example_witness:
  "validate_cron_expression stub_croniter ''30 3 15 * *'' = Inr True
   \<and> translate stub_croniter ''30 3 15 * *'' = Inr (''30 3 15 cada mes cada d'' @ [CHR 0xED] @ ''a'')
   \<and> parse_field ''15'' (''d'' @ [CHR 0xED] @ ''a del mes'') None = Inr ''15''"
proof -
  have "length (split_ws ''30 3 15 * *'') = 5" by code_simp
  then have a: "validate_cron_expression stub_croniter ''30 3 15 * *'' = Inr True"
    by (simp add: stub_accepts)
  show ?thesis
    using translate_literal_example [OF a, of "''15''" "''d'' @ [CHR 0xED] @ ''a del mes''" None] a
    by simp
qed

text \<open>
  C8. When the validator accepts it, an expression whose five fields are all \<open>*\<close>
  translates to "cada minuto cada hora cada dia del mes cada mes cada dia" (with the
  program's accented letters): "cada" and the noun of each field, in the order of the
  fields, joined by single spaces.
\<close>

theorem all_wildcards:
  assumes "validate_cron_expression croniter e = Inr True"
    and "split_ws e = [''*'', ''*'', ''*'', ''*'', ''*'']"
  shows "translate croniter e =
      Inr (''cada minuto cada hora cada d'' @ [CHR 0xED] @ ''a del mes cada mes cada d''
        @ [CHR 0xED] @ ''a'')
    \<and> translate croniter e =
      Inr (join '' '' (map (\<lambda>noun. ''cada '' @ noun)
        [''minuto'', ''hora'', ''d'' @ [CHR 0xED] @ ''a del mes'', ''mes'',
         ''d'' @ [CHR 0xED] @ ''a'']))"
proof -
  have "field_translations ''*'' ''*'' ''*'' ''*'' ''*'' =
      Inr (map (\<lambda>noun. ''cada '' @ noun)
        [''minuto'', ''hora'', ''d'' @ [CHR 0xED] @ ''a del mes'', ''mes'',
         ''d'' @ [CHR 0xED] @ ''a''])"
    by (simp add: field_translations_def parse_field_def)
  then show ?thesis
    using assms by (simp add: translate_def)
qed

theorem all_wildcards_witness:
  "split_ws '' *  * * *   * '' = [''*'', ''*'', ''*'', ''*'', ''*'']
   \<and> translate stub_croniter '' *  * * *   * '' =
      Inr (''cada minuto cada hora cada d'' @ [CHR 0xED] @ ''a del mes cada mes cada d''
        @ [CHR 0xED] @ ''a'')"
proof -
  have s: "split_ws '' *  * * *   * '' = [''*'', ''*'', ''*'', ''*'', ''*'']"
    by code_simp
  then have a: "validate_cron_expression stub_croniter '' *  * * *   * '' = Inr True"
    by (simp add: stub_accepts)
  show ?thesis
    using all_wildcards [OF a s] s by simp
qed

subsection \<open>\<open>get_next_executions\<close>\<close>

lemma next_times_length: "next_times get_next n cron = Inr ts \<Longrightarrow> length ts = n"
  by (induction n arbitrary: cron ts) (auto split: sum.splits prod.splits)

text \<open>
  C9. \<open>get_next_executions\<close> always returns a list. When the collaborator's constructor
  raises (the expression is invalid) or one of the \<open>count\<close> calls of \<open>get_next\<close>
  raises, the exception is logged and the result is the empty list; otherwise the result
  holds exactly \<open>count\<close> times (none for a \<open>count\<close> below 1).
\<close>

theorem next_executions_swallow:
  "(croniter e (Some now) = Inl x \<longrightarrow>
      get_next_executions croniter get_next now e count = ([], [x]))
   \<and> (croniter e (Some now) = Inr cron \<and> next_times get_next (nat count) cron = Inl x \<longrightarrow>
      get_next_executions croniter get_next now e count = ([], [x]))
   \<and> (croniter e (Some now) = Inr cron \<and> next_times get_next (nat count) cron = Inr ts \<longrightarrow>
      get_next_executions croniter get_next now e count = (ts, []) \<and> length ts = nat count)"
  by (auto simp: get_next_executions_def dest: next_times_length)

theorem next_executions_swallow_witness:
  "stub_croniter ''* * * *'' (Some 0) = Inl (ValueError Collaborator)
   \<and> get_next_executions stub_croniter stub_get_next 0 ''* * * *'' 5 = ([], [ValueError Collaborator])
   \<and> stub_croniter ''* * * * *'' (Some 0) = Inr 0
   \<and> next_times stub_get_next (nat 6) 0 = Inl (OtherException ''CroniterBadDateError'')
   \<and> get_next_executions stub_croniter stub_get_next 0 ''* * * * *'' 6 =
       ([], [OtherException ''CroniterBadDateError''])
   \<and> get_next_executions stub_croniter stub_get_next 0 ''* * * * *'' 5 =
       ([60, 120, 180, 240, 300], [])"
proof -
  have c4: "stub_croniter ''* * * *'' (Some 0) = Inl (ValueError Collaborator)"
    by code_simp
  have c5: "stub_croniter ''* * * * *'' (Some 0) = Inr 0"
    by code_simp
  have n6: "next_times stub_get_next (nat 6) 0 = Inl (OtherException ''CroniterBadDateError'')"
    by code_simp
  have n5: "next_times stub_get_next (nat 5) 0 = Inr [60, 120, 180, 240, 300]"
    by code_simp
  show ?thesis
    using next_executions_swallow [of stub_croniter "''* * * *''" 0 "ValueError Collaborator" stub_get_next 5]
      next_executions_swallow [of stub_croniter "''* * * * *''" 0 "OtherException ''CroniterBadDateError''" stub_get_next 6 0]
      next_executions_swallow [of stub_croniter "''* * * * *''" 0 _ stub_get_next 5 0 "[60, 120, 180, 240, 300]"]
      c4 c5 n6 n5
    by simp
qed

subsection \<open>List form with a name table\<close>

lemma list_names_nonneg:
  "map py_int vs = map Inr idxs \<Longrightarrow> list_all (\<lambda>i. 0 \<le> i) idxs \<Longrightarrow>
   list_names names vs =
     Inr (map (\<lambda>i. names ! nat i) (filter (\<lambda>i. i < int (length names)) idxs))"
proof (induction vs arbitrary: idxs)
  case Nil
  then show ?case by simp
next
  case (Cons v vs)
  then obtain i rest where idxs: "idxs = i # rest" and v: "py_int v = Inr i"
    and tl: "map py_int vs = map Inr rest"
    by (cases idxs) auto
  from Cons.prems(2) idxs have "0 \<le> i" and "list_all (\<lambda>i. 0 \<le> i) rest"
    by auto
  with Cons.IH [OF tl] v idxs show ?case
    by (simp add: py_index_nonneg)
qed

lemma list_names_well_formed:
  "list_all nonneg_int vs \<Longrightarrow> \<exists>names'. list_names names vs = Inr names'"
proof (induction vs)
  case Nil
  then show ?case by simp
next
  case (Cons v vs)
  then obtain i where v: "py_int v = Inr i" and i: "0 \<le> i"
    by (auto simp: nonneg_int_def split: sum.splits)
  from Cons obtain rest where "list_names names vs = Inr rest"
    by auto
  with v i show ?case
    by (simp add: py_index_nonneg)
qed

lemma list_names_bad_part:
  "v \<in> set vs \<Longrightarrow> py_int v = Inl x \<Longrightarrow> \<exists>e. list_names names vs = Inl e"
proof (induction vs)
  case Nil
  then show ?case by simp
next
  case (Cons w ws)
  show ?case
  proof (cases "v = w")
    case True
    with Cons.prems show ?thesis by simp
  next
    case False
    with Cons obtain e where "list_names names ws = Inl e"
      by auto
    then show ?thesis
      by (auto split: sum.splits)
  qed
qed

lemma not_is_int: "\<not> is_int v \<longleftrightarrow> (\<exists>x. py_int v = Inl x)"
  by (cases "py_int v") (simp_all add: is_int_def)

lemma list_names_error:
  "list_names names vs = Inl e \<Longrightarrow> e = ValueError IntConversion \<or> e = IndexError"
  by (induction vs) (auto simp: py_index_def split: sum.splits if_splits dest: py_int_error)

lemma parse_field_list_nonneg:
  assumes "CHR '','' \<in> set value" and "names \<noteq> []"
    and "map py_int (split_on (CHR '','') value) = map Inr idxs"
    and "list_all (\<lambda>i. 0 \<le> i) idxs"
  shows "parse_field value type_name (Some names) =
    Inr (''los '' @ join '', ''
      (map (\<lambda>i. names ! nat i) (filter (\<lambda>i. i < int (length names)) idxs)))"
proof -
  have "value \<noteq> ''*''"
    using assms(1) by auto
  then show ?thesis
    using assms(1,2) list_names_nonneg [OF assms(3,4), of names]
    by (simp add: parse_field_def parse_list_def)
qed

lemma negative_needs_hyphen: "py_int v = Inr i \<Longrightarrow> i < 0 \<Longrightarrow> CHR ''-'' \<in> set v"
  using py_int_nonneg [of v i] by fastforce

text \<open>
  C3. A list token read through a name table, with sub-parts that are integers from 0
  on: the result is "los" followed by the names of the parsed indices that lie in
  \<open>[0, len)\<close>, taken from the table in the order of the token and joined with a comma
  and a blank. Every index outside \<open>[0, len)\<close> is left out, and nothing is raised. (A
  sub-part read as a negative number holds a minus sign, \<open>negative_needs_hyphen\<close>;
  whether such a part reaches \<open>_parse_field\<close> is decided by the validator that
  \<open>translate\<close> asks first.)
\<close>

theorem list_with_name_table:
  assumes "CHR '','' \<in> set value" and "names \<noteq> []"
    and "map py_int (split_on (CHR '','') value) = map Inr idxs"
    and "list_all (\<lambda>i. 0 \<le> i) idxs"
  shows "parse_field value type_name (Some names) =
    Inr (''los '' @ join '', ''
      (map (\<lambda>i. names ! nat i) (filter (\<lambda>i. 0 \<le> i \<and> i < int (length names)) idxs)))"
proof -
  have "filter (\<lambda>i. 0 \<le> i \<and> i < int (length names)) idxs =
      filter (\<lambda>i. i < int (length names)) idxs"
    using assms(4) by (intro filter_cong) (auto simp: list_all_iff)
  then show ?thesis
    using parse_field_list_nonneg [OF assms] by simp
qed

theorem list_with_name_table_witness:
  "map py_int (split_on (CHR '','') ''1,3,5'') = map Inr [1, 3, 5]
   \<and> parse_field ''1,3,5'' (''d'' @ [CHR 0xED] @ ''a'') (Some DAY_NAMES) =
       Inr (''los lunes, mi'' @ [CHR 0xE9] @ ''rcoles, viernes'')
   \<and> map py_int (split_on (CHR '','') ''7,2,12,0'') = map Inr [7, 2, 12, 0]
   \<and> parse_field ''7,2,12,0'' (''d'' @ [CHR 0xED] @ ''a'') (Some DAY_NAMES) =
       Inr ''los martes, domingo''"
proof -
  have a: "map py_int (split_on (CHR '','') ''1,3,5'') = map Inr [1, 3, 5]"
    by code_simp
  have b: "map py_int (split_on (CHR '','') ''7,2,12,0'') = map Inr [7, 2, 12, 0]"
    by code_simp
  have n: "DAY_NAMES \<noteq> []"
    by (simp add: DAY_NAMES_def)
  have c: "CHR '','' \<in> set ''1,3,5''" "CHR '','' \<in> set ''7,2,12,0''"
    by simp_all
  have p: "list_all (\<lambda>i. 0 \<le> i) [1, 3, 5 :: int]" "list_all (\<lambda>i. 0 \<le> i) [7, 2, 12, 0 :: int]"
    by simp_all
  show ?thesis
    using list_with_name_table [OF c(1) n a p(1), of "''d'' @ [CHR 0xED] @ ''a''"]
      list_with_name_table [OF c(2) n b p(2), of "''d'' @ [CHR 0xED] @ ''a''"] a b
    by (simp add: DAY_NAMES_def)
qed

text \<open>
  The guard of line 69 is \<open>int(v) < len(names_list)\<close> alone. Called on its own with a
  token that has a signed sub-part, \<open>_parse_field\<close> therefore reads a negative index
  from the end of the table, or raises \<open>IndexError\<close> below \<open>-len\<close>; these tokens lie
  outside the hypotheses of \<open>list_with_name_table\<close>.
\<close>

lemma list_signed_part_direct_call:
  "py_int ''-1'' = Inr (- 1)
   \<and> parse_field ''-1,2'' (''d'' @ [CHR 0xED] @ ''a'') (Some DAY_NAMES) =
       Inr (''los s'' @ [CHR 0xE1] @ ''bado, martes'')
   \<and> parse_field ''-8,2'' (''d'' @ [CHR 0xED] @ ''a'') (Some DAY_NAMES) = Inl IndexError"
  by code_simp

subsection \<open>When \<open>_parse_field\<close> returns\<close>

text \<open>
  C1, as amended. \<open>_parse_field\<close> returns a phrase for every token with well-formed
  numeric content, whatever the noun: the wildcard, a literal, a list without name table,
  a list with a name table whose sub-parts are all integers from 0 on, a range of exactly
  two integer sub-parts (inside the table when there is one), a step with exactly one
  slash. It does not return for every token: a sub-part that \<open>int\<close> rejects, in a list
  read through a name table or in a range, makes it raise (\<open>ValueError\<close> in a range)
  instead of giving a phrase.
\<close>

theorem well_formed_renders:
  "(well_formed value names_list \<longrightarrow>
      (\<exists>phrase. parse_field value type_name names_list = Inr phrase))
   \<and> (CHR '','' \<in> set value \<and> truthy names_list
       \<and> (\<exists>v \<in> set (split_on (CHR '','') value). \<not> is_int v) \<longrightarrow>
      (\<exists>e. parse_field value type_name names_list = Inl e
           \<and> (e = ValueError IntConversion \<or> e = IndexError)))
   \<and> (CHR '','' \<notin> set value \<and> CHR ''-'' \<in> set value
       \<and> (\<exists>v \<in> set (split_on (CHR ''-'') value). \<not> is_int v) \<longrightarrow>
      (\<exists>m. parse_field value type_name names_list = Inl (ValueError m)))"
proof -
  have ok: "\<exists>phrase. parse_field value type_name names_list = Inr phrase"
    if wf: "well_formed value names_list"
  proof -
    consider (wild) "value = ''*''"
      | (list) "value \<noteq> ''*''" "CHR '','' \<in> set value"
      | (range) "value \<noteq> ''*''" "CHR '','' \<notin> set value" "CHR ''-'' \<in> set value"
      | (step) "value \<noteq> ''*''" "CHR '','' \<notin> set value" "CHR ''-'' \<notin> set value"
          "CHR ''/'' \<in> set value"
      | (literal) "value \<noteq> ''*''" "CHR '','' \<notin> set value" "CHR ''-'' \<notin> set value"
          "CHR ''/'' \<notin> set value"
      by blast
    then show ?thesis
    proof cases
      case wild
      then show ?thesis by (simp add: parse_field_def)
    next
      case list
      show ?thesis
      proof (cases "truthy names_list")
        case True
        with wf list have "list_all nonneg_int (split_on (CHR '','') value)"
          by (simp add: well_formed_def)
        from list_names_well_formed [OF this, of "the names_list"]
        show ?thesis
          using list True by (auto simp: parse_field_def parse_list_def)
      next
        case False
        with list show ?thesis
          by (simp add: parse_field_def parse_list_def)
      qed
    next
      case range
      with wf obtain a b where sp: "split_on (CHR ''-'') value = [a, b]"
        and parts: "if truthy names_list
          then table_index (length (the names_list)) a \<and> table_index (length (the names_list)) b
          else is_int a \<and> is_int b"
        by (auto simp: well_formed_def split: list.splits)
      show ?thesis
      proof (cases "truthy names_list")
        case True
        with parts obtain i j where "py_int a = Inr i" "py_int b = Inr j"
          "0 \<le> i" "i < int (length (the names_list))" "0 \<le> j" "j < int (length (the names_list))"
          by (auto simp: table_index_def split: sum.splits)
        with range sp True show ?thesis
          by (simp add: parse_field_def parse_range_def py_index_nonneg)
      next
        case False
        with parts obtain i j where "py_int a = Inr i" "py_int b = Inr j"
          by (auto simp: is_int_def split: sum.splits)
        with range sp False show ?thesis
          by (simp add: parse_field_def parse_range_def)
      qed
    next
      case step
      with wf have "length (split_on (CHR ''/'') value) = 2"
        by (simp add: well_formed_def)
      then obtain a b where "split_on (CHR ''/'') value = [a, b]"
        by (auto simp: length_Suc_conv numeral_2_eq_2)
      with step show ?thesis
        by (simp add: parse_field_def parse_step_def)
    next
      case literal
      then show ?thesis by (simp add: parse_field_def)
    qed
  qed
  have bad_list: "\<exists>e. parse_field value type_name names_list = Inl e
      \<and> (e = ValueError IntConversion \<or> e = IndexError)"
    if "CHR '','' \<in> set value" "truthy names_list"
      "\<exists>v \<in> set (split_on (CHR '','') value). \<not> is_int v"
  proof -
    from that(3) obtain v x where "v \<in> set (split_on (CHR '','') value)" "py_int v = Inl x"
      by (auto simp: not_is_int)
    from list_names_bad_part [OF this, of "the names_list"] obtain e
      where e: "list_names (the names_list) (split_on (CHR '','') value) = Inl e"
      by blast
    have "value \<noteq> ''*''"
      using that(1) by auto
    with that(1,2) e have "parse_field value type_name names_list = Inl e"
      by (simp add: parse_field_def parse_list_def)
    with list_names_error [OF e] show ?thesis
      by blast
  qed
  have bad_range: "\<exists>m. parse_field value type_name names_list = Inl (ValueError m)"
    if "CHR '','' \<notin> set value" "CHR ''-'' \<in> set value"
      "\<exists>v \<in> set (split_on (CHR ''-'') value). \<not> is_int v"
  proof -
    from that(3) obtain v x where "v \<in> set (split_on (CHR ''-'') value)" "py_int v = Inl x"
      by (auto simp: not_is_int)
    from unpack_ints_bad_part [OF this] obtain m
      where "unpack_ints (split_on (CHR ''-'') value) = Inl (ValueError m)"
      by blast
    moreover have "value \<noteq> ''*''"
      using that(2) by auto
    ultimately show ?thesis
      using that(1,2) by (simp add: parse_field_def parse_range_def)
  qed
  show ?thesis
    using ok bad_list bad_range by blast
qed

theorem well_formed_renders_witness:
  "well_formed ''1,3,9'' (Some DAY_NAMES)
   \<and> parse_field ''1,3,9'' ''x'' (Some DAY_NAMES) = Inr (''los lunes, mi'' @ [CHR 0xE9] @ ''rcoles'')
   \<and> truthy (Some DAY_NAMES) \<and> \<not> is_int ''mon''
   \<and> parse_field ''mon,3'' ''x'' (Some DAY_NAMES) = Inl (ValueError IntConversion)
   \<and> \<not> is_int ''10/2''
   \<and> parse_field ''1-10/2'' ''minuto'' None = Inl (ValueError IntConversion)"
proof -
  have wf: "well_formed ''1,3,9'' (Some DAY_NAMES)" by code_simp
  have t: "truthy (Some DAY_NAMES)" by code_simp
  have m: "\<not> is_int ''mon''" by code_simp
  have s: "\<not> is_int ''10/2''" by code_simp
  have e1: "parse_field ''1,3,9'' ''x'' (Some DAY_NAMES) = Inr (''los lunes, mi'' @ [CHR 0xE9] @ ''rcoles'')"
    by code_simp
  have e2: "parse_field ''mon,3'' ''x'' (Some DAY_NAMES) = Inl (ValueError IntConversion)"
    by code_simp
  have e3: "parse_field ''1-10/2'' ''minuto'' None = Inl (ValueError IntConversion)"
    by code_simp
  from well_formed_renders [of "''1,3,9''" "Some DAY_NAMES" "''x''"] wf
  have "\<exists>phrase. parse_field ''1,3,9'' ''x'' (Some DAY_NAMES) = Inr phrase"
    by blast
  then show ?thesis
    using wf t m s e1 e2 e3 by simp
qed

text \<open>
  C1 as stated fails: tokens with month or weekday names, or a range with a step, hold a
  sub-part that \<open>int\<close> rejects, and \<open>_parse_field\<close> raises \<open>ValueError\<close>.
\<close>

theorem non_integer_part_counterexample:
  "parse_field ''jan-mar'' ''mes'' (Some MONTH_NAMES) = Inl (ValueError IntConversion)
   \<and> parse_field ''mon,wed'' (''d'' @ [CHR 0xED] @ ''a'') (Some DAY_NAMES) =
       Inl (ValueError IntConversion)
   \<and> parse_field ''1-10/2'' ''minuto'' None = Inl (ValueError IntConversion)"
  by code_simp

end
